theory Spec2Isabelle
  imports Complex_Main "HOL-Library.Word"
begin

section \<open>Data model (person\_counter.h)\<close>

text \<open>
  A C++ \<^verbatim>\<open>int\<close> is a 32-bit two's complement value: \<open>+\<close> and \<open>-\<close> wrap around,
  the comparisons of the source are the signed ones (\<open><s\<close>, \<open>\<le>s\<close>) and \<open>sint\<close> reads
  the value. A \<^verbatim>\<open>float\<close> is only ever copied by the pipeline, so its representation
  is a type parameter \<open>'f\<close>.
\<close>

type_synonym cint = "32 word"
type_synonym uchar = "8 word"

text \<open>\<^verbatim>\<open>struct Rect\<close>: one detected head, in full-image coordinates.\<close>

record 'f Rect =
  x :: cint
  y :: cint
  width :: cint
  height :: cint
  confidence :: 'f

text \<open>\<^verbatim>\<open>struct OBJPos\<close>: one polygon vertex.\<close>

record OBJPos =
  x :: cint
  y :: cint

text \<open>\<^verbatim>\<open>struct Thresholds\<close>.\<close>

record 'f Thresholds =
  confidenceThreshold :: 'f
  scoreThreshold :: 'f
  nmsThreshold :: 'f

text \<open>\<^verbatim>\<open>cv::Rect\<close> (OpenCV): top-left corner and size.\<close>

record cv_Rect =
  x :: cint
  y :: cint
  width :: cint
  height :: cint

text \<open>
  \<^verbatim>\<open>struct Detection\<close> is declared in inference.h, which is not among the sources.
  detectHeads reads its fields \<^verbatim>\<open>box\<close> (a \<^verbatim>\<open>cv::Rect\<close>) and \<^verbatim>\<open>confidence\<close> (a
  \<^verbatim>\<open>float\<close>) only; whatever else the declaration holds is the extension part of the
  record scheme.
\<close>

record 'f Detection =
  box :: cv_Rect
  confidence :: 'f

section \<open>OpenCV matrices and the process state\<close>

text \<open>
  \<^verbatim>\<open>cv::Mat\<close> is a header over a shared, reference-counted pixel buffer. The buffers
  live in a store (a list, the address of a buffer is its index, a new buffer is
  appended); a header names its buffer, the position of its first pixel in it, and its
  size. A header without data (\<^verbatim>\<open>Mat()\<close>) has no buffer and size 0.
  imdecode with \<^verbatim>\<open>IMREAD_COLOR\<close> yields 3-channel 8-bit pixels.
\<close>

type_synonym pixel = "uchar \<times> uchar \<times> uchar"
type_synonym raster = "pixel list list"

record Mat =
  buffer :: "nat option"
  origin :: "nat \<times> nat"
  rows :: cint
  cols :: cint

text \<open>
  The state the pipeline runs in: the pixel buffers, the \<^verbatim>\<open>Inference\<close> object behind
  \<^verbatim>\<open>inf\<close> (the field \<open>inf'\<close>: its class is in inference.cpp, not among the
  sources, so its state is a type parameter), and the lines written to the log.
\<close>

record 'inf world =
  mats :: "raster list"
  inf' :: 'inf
  spdlog :: "string list"

text \<open>What a call into OpenCV or into the detector can throw.\<close>

datatype exn = cv_Exception | other_exception

text \<open>
  The collaborators whose code is not among the sources, as parameters: the JPEG codec
  behind \<^verbatim>\<open>cv::imdecode\<close> (it yields the pixels, or \<open>None\<close> when the bytes are
  not an image, or throws), and the two members of \<^verbatim>\<open>Inference\<close> the pipeline
  calls. Their signatures follow the calls in detectHeads: \<^verbatim>\<open>setThresholds\<close> takes
  the three floats and updates the Inference object; \<^verbatim>\<open>runInference\<close> is handed the
  matrix header and may read and write the state, return detections or throw.
\<close>

record ('inf, 'f, 'z) extern =
  decode :: "uchar list \<Rightarrow> exn + raster option"
  setThresholds :: "'f \<Rightarrow> 'f \<Rightarrow> 'f \<Rightarrow> 'inf \<Rightarrow> 'inf"
  runInference :: "Mat \<Rightarrow> 'inf world \<Rightarrow>
    (exn + ('f, 'z) Detection_scheme list) \<times> 'inf world"

text \<open>\<^verbatim>\<open>cv::Mat()\<close>: the header without data.\<close>

definition Mat_none :: Mat where
  "Mat_none = \<lparr>buffer = None, origin = (0, 0), rows = 0, cols = 0\<rparr>"

text \<open>\<^verbatim>\<open>Mat::empty()\<close>: no data, or no element.\<close>

definition Mat_empty :: "Mat \<Rightarrow> bool" where
  "Mat_empty m = (buffer m = None \<or> rows m = 0 \<or> cols m = 0)"

text \<open>
  \<^verbatim>\<open>cv::imdecode(buf, IMREAD_COLOR)\<close>: a header over a new buffer holding the decoded
  pixels, or the header without data when the codec rejects the bytes.
\<close>

definition imdecode :: "(uchar list \<Rightarrow> exn + raster option) \<Rightarrow> uchar list \<Rightarrow> 'inf world
    \<Rightarrow> (exn + Mat) \<times> 'inf world" where
  "imdecode codec buf w =
     (case codec buf of
        Inl e \<Rightarrow> (Inl e, w)
      | Inr None \<Rightarrow> (Inr Mat_none, w)
      | Inr (Some pix) \<Rightarrow>
          (Inr \<lparr>buffer = Some (length (mats w)), origin = (0, 0),
                rows = of_nat (length pix),
                cols = of_nat (case pix of [] \<Rightarrow> 0 | r # _ \<Rightarrow> length r)\<rparr>,
           w\<lparr>mats := mats w @ [pix]\<rparr>))"

text \<open>
  \<^verbatim>\<open>Mat::operator()(const Rect &roi)\<close>: OpenCV asserts that the rectangle lies in
  the matrix (\<^verbatim>\<open>0 <= roi.x && 0 <= roi.width && roi.x + roi.width <= m.cols\<close>, the
  same for y) and throws \<^verbatim>\<open>cv::Exception\<close> otherwise. The result shares the buffer
  of \<open>m\<close>; a rectangle without area gives the header without data.
\<close>

definition Mat_roi :: "Mat \<Rightarrow> cv_Rect \<Rightarrow> exn + Mat" where
  "Mat_roi m roi =
     (if 0 \<le>s cv_Rect.x roi \<and> 0 \<le>s cv_Rect.width roi
         \<and> cv_Rect.x roi + cv_Rect.width roi \<le>s cols m
         \<and> 0 \<le>s cv_Rect.y roi \<and> 0 \<le>s cv_Rect.height roi
         \<and> cv_Rect.y roi + cv_Rect.height roi \<le>s rows m
      then Inr (if cv_Rect.height roi \<le>s 0 \<or> cv_Rect.width roi \<le>s 0 then Mat_none
                else \<lparr>buffer = buffer m,
                      origin = (fst (origin m) + unat (cv_Rect.x roi),
                                snd (origin m) + unat (cv_Rect.y roi)),
                      rows = cv_Rect.height roi, cols = cv_Rect.width roi\<rparr>)
      else Inl cv_Exception)"

text \<open>The pixels a header shows: the part of its buffer from its origin on.\<close>

definition pixels_of :: "'inf world \<Rightarrow> Mat \<Rightarrow> raster" where
  "pixels_of w m =
     (case buffer m of
        None \<Rightarrow> []
      | Some a \<Rightarrow>
          if a < length (mats w)
          then map (\<lambda>r. take (unat (cols m)) (drop (fst (origin m)) r))
                 (take (unat (rows m)) (drop (snd (origin m)) (mats w ! a)))
          else [])"

text \<open>
  \<^verbatim>\<open>Mat::clone()\<close>: a deep copy. The pixels the header shows are copied into a new
  buffer; the clone of an empty matrix is the header without data.
\<close>

definition Mat_clone :: "Mat \<Rightarrow> 'inf world \<Rightarrow> Mat \<times> 'inf world" where
  "Mat_clone m w =
     (if Mat_empty m then (Mat_none, w)
      else (\<lparr>buffer = Some (length (mats w)), origin = (0, 0), rows = rows m, cols = cols m\<rparr>,
            w\<lparr>mats := mats w @ [pixels_of w m]\<rparr>))"

text \<open>
  Logging. The constructor of PersonCounter sets the level of the default logger to
  \<^verbatim>\<open>info\<close>: \<^verbatim>\<open>spdlog::error\<close> writes its line, \<^verbatim>\<open>spdlog::trace\<close> writes nothing.
\<close>

definition spdlog_error :: "string \<Rightarrow> 'inf world \<Rightarrow> 'inf world" where
  "spdlog_error msg w = w\<lparr>spdlog := spdlog w @ [msg]\<rparr>"

definition spdlog_trace :: "string \<Rightarrow> 'inf world \<Rightarrow> 'inf world" where
  "spdlog_trace msg w = w"

section \<open>person\_counter.cpp\<close>

subsection \<open>getTgtRect\<close>

text \<open>
  The loop of getTgtRect over the vertices, with its four accumulators
  \<^verbatim>\<open>ltx, lty, rbx, rby\<close>; each is replaced when the vertex is strictly beyond it.
\<close>

fun getTgtRect_loop :: "OBJPos list \<Rightarrow> cint \<Rightarrow> cint \<Rightarrow> cint \<Rightarrow> cint
    \<Rightarrow> cint \<times> cint \<times> cint \<times> cint" where
  "getTgtRect_loop [] ltx lty rbx rby = (ltx, lty, rbx, rby)"
| "getTgtRect_loop (p # ps) ltx lty rbx rby =
     getTgtRect_loop ps
       (if OBJPos.x p <s ltx then OBJPos.x p else ltx)
       (if OBJPos.y p <s lty then OBJPos.y p else lty)
       (if rbx <s OBJPos.x p then OBJPos.x p else rbx)
       (if rby <s OBJPos.y p then OBJPos.y p else rby)"

definition getTgtRect :: "OBJPos list \<Rightarrow> cint \<Rightarrow> cint \<Rightarrow> cv_Rect" where
  "getTgtRect vertices cam_width cam_height =
     (case getTgtRect_loop vertices cam_width cam_height 0 0 of
        (ltx, lty, rbx, rby) \<Rightarrow>
          \<lparr>cv_Rect.x = ltx, y = lty, width = rbx - ltx, height = rby - lty\<rparr>)"

subsection \<open>detectHeads\<close>

text \<open>
  The loop at the end of detectHeads: \<^verbatim>\<open>for (int i = 0; i < detections; ++i)\<close>,
  reading \<^verbatim>\<open>output[i]\<close> and appending the translated rectangle to \<^verbatim>\<open>results\<close>.
\<close>

function translate_loop :: "cv_Rect \<Rightarrow> ('f, 'z) Detection_scheme list \<Rightarrow> cint \<Rightarrow> cint
    \<Rightarrow> 'f Rect list \<Rightarrow> 'f Rect list" where
  "translate_loop tgtRect output detections i results =
     (if i <s detections
      then
        let detection = output ! unat i;
            box = Detection.box detection;
            result = \<lparr>Rect.x = cv_Rect.x box + cv_Rect.x tgtRect,
                      y = cv_Rect.y box + cv_Rect.y tgtRect,
                      width = cv_Rect.width box,
                      height = cv_Rect.height box,
                      confidence = Detection.confidence detection\<rparr>
        in translate_loop tgtRect output detections (i + 1) (results @ [result])
      else results)"
  by pat_completeness auto

termination translate_loop
proof (relation "measure (\<lambda>(tgtRect, output, detections, i, results).
    nat (sint detections - sint i))", goal_cases)
  case 1
  show ?case by simp
next
  case (2 tgtRect outp detections i results detection bx result)
  from \<open>i <s detections\<close> have less: "sint i < sint detections"
    by (simp add: word_sless_alt)
  moreover have "sint detections < 2 ^ 31" using sint_lt [of detections] by simp
  moreover have "- (2 ^ 31) \<le> sint i" using sint_ge [of i] by simp
  ultimately have "signed_take_bit 31 (sint i + 1) = sint i + 1"
    by (intro signed_take_bit_int_eq_self) auto
  then have "sint (i + 1) = sint i + 1" by (simp add: sint_word_add)
  with less show ?case by simp
qed

declare translate_loop.simps [simp del]

text \<open>
  detectHeads. \<^verbatim>\<open>thresholds\<close> is a non-const reference: the model returns its value
  at the end of the call, beside the result and the state. A thrown exception leaves
  the function at once, with the state as it is then.
\<close>

definition detectHeads :: "('inf, 'f, 'z) extern \<Rightarrow> uchar list \<Rightarrow> OBJPos list
    \<Rightarrow> 'f Thresholds \<Rightarrow> 'inf world
    \<Rightarrow> (exn + 'f Rect list) \<times> 'f Thresholds \<times> 'inf world" where
  "detectHeads E jpegData vertices thresholds w0 =
     (case imdecode (decode E) jpegData w0 of
        (Inl e, w1) \<Rightarrow> (Inl e, thresholds, w1)
      | (Inr img, w1) \<Rightarrow>
          if Mat_empty img
          then (Inr [], thresholds, spdlog_error ''Failed to decode JPEG data.'' w1)
          else
            (let tgtRect = getTgtRect vertices (cols img) (rows img) in
             (case Mat_roi img tgtRect of
                Inl e \<Rightarrow> (Inl e, thresholds, w1)
              | Inr view \<Rightarrow>
                  (case Mat_clone view w1 of
                     (src, w2) \<Rightarrow>
                       (let w3 = w2\<lparr>inf' := setThresholds E
                                   (confidenceThreshold thresholds)
                                   (scoreThreshold thresholds)
                                   (nmsThreshold thresholds) (inf' w2)\<rparr>
                        in (case runInference E src w3 of
                              (Inl e, w4) \<Rightarrow> (Inl e, thresholds, w4)
                            | (Inr output, w4) \<Rightarrow>
                                (let detections = of_nat (length output);
                                     w5 = spdlog_trace ''Number of detections: {}'' w4
                                 in (Inr (translate_loop tgtRect output detections 0 []),
                                     thresholds, w5))))))))"

section \<open>Test doubles\<close>

text \<open>
  A codec and a detector to run the pipeline on concrete inputs. The codec throws on
  the empty buffer, as the assertion at the start of OpenCV's decoder does, decodes
  every buffer that starts with the JPEG marker FF D8 to an image 8 pixels wide and 6
  high, and rejects every other buffer. The detector returns the same two boxes for
  every matrix and overwrites the pixels of the matrix it is handed; setThresholds
  stores the three values.
\<close>

definition stub_image :: raster where
  "stub_image = replicate 6 (replicate 8 (0, 0, 0))"

definition stub_output :: "real Detection list" where
  "stub_output =
     [\<lparr>box = \<lparr>cv_Rect.x = 3, y = 2, width = 1, height = 1\<rparr>, confidence = 0.9\<rparr>,
      \<lparr>box = \<lparr>cv_Rect.x = 0, y = 0, width = 2, height = 2\<rparr>, confidence = 0.5\<rparr>]"

definition stub_extern :: "(real \<times> real \<times> real, real, unit) extern" where
  "stub_extern =
     \<lparr>decode = (\<lambda>buf. if buf = [] then Inl cv_Exception
                       else if take 2 buf = [0xFF, 0xD8] then Inr (Some stub_image)
                       else Inr None),
      setThresholds = (\<lambda>c s n i. (c, s, n)),
      runInference = (\<lambda>m w.
        (Inr stub_output,
         case buffer m of None \<Rightarrow> w | Some a \<Rightarrow> w\<lparr>mats := (mats w)[a := []]\<rparr>))\<rparr>"

text \<open>The same with a detector that finds nothing and writes nothing.\<close>

definition stub_silent :: "(real \<times> real \<times> real, real, unit) extern" where
  "stub_silent = stub_extern\<lparr>runInference := \<lambda>m w. (Inr [], w)\<rparr>"

definition stub_world :: "(real \<times> real \<times> real) world" where
  "stub_world = \<lparr>mats = [], inf' = (0, 0, 0), spdlog = []\<rparr>"

definition stub_jpeg :: "uchar list" where
  "stub_jpeg = [0xFF, 0xD8, 0xFF, 0xE0]"

definition stub_garbage :: "uchar list" where
  "stub_garbage = [0x47, 0x49, 0x46]"

definition stub_thresholds :: "real Thresholds" where
  "stub_thresholds = \<lparr>confidenceThreshold = 0.2, scoreThreshold = 0.3, nmsThreshold = 0.4\<rparr>"

text \<open>A triangle: the box at (4, 3) lies in its bounding rectangle and outside it.\<close>

definition stub_triangle :: "OBJPos list" where
  "stub_triangle = [\<lparr>OBJPos.x = 1, y = 1\<rparr>, \<lparr>OBJPos.x = 5, y = 1\<rparr>, \<lparr>OBJPos.x = 1, y = 4\<rparr>]"

section \<open>Signed 32-bit arithmetic without overflow\<close>

lemma sint_diff_nonneg:
  fixes a b :: cint
  assumes "0 \<le> sint a" "0 \<le> sint b"
  shows "sint (a - b) = sint a - sint b"
proof -
  have "sint a < 2 ^ 31" "sint b < 2 ^ 31" using sint_lt [of a] sint_lt [of b] by simp_all
  with assms have "signed_take_bit 31 (sint a - sint b) = sint a - sint b"
    by (intro signed_take_bit_int_eq_self) auto
  then show ?thesis by (simp add: sint_word_diff)
qed

lemma sint_neg_pos:
  fixes c :: cint
  assumes "0 < sint c"
  shows "sint (- c) = - sint c"
proof -
  have "sint c < 2 ^ 31" using sint_lt [of c] by simp
  with assms have "signed_take_bit 31 (- sint c) = - sint c"
    by (intro signed_take_bit_int_eq_self) auto
  then show ?thesis by (simp add: sint_word_minus)
qed

lemma not_both_nonneg:
  fixes c :: cint
  assumes "c \<noteq> 0"
  shows "\<not> (0 \<le>s c \<and> 0 \<le>s - c)"
proof
  assume a: "0 \<le>s c \<and> 0 \<le>s - c"
  then have "0 \<le> sint c" by (simp add: word_sle_eq)
  moreover have "sint c \<noteq> 0" using assms by (simp add: signed_eq_0_iff)
  ultimately have pos: "0 < sint c" by simp
  from a have "0 \<le> sint (- c)" by (simp add: word_sle_eq)
  with sint_neg_pos [OF pos] pos show False by simp
qed

lemma sint_of_nat_small:
  assumes "n < 2 ^ 31"
  shows "sint (of_nat n :: cint) = int n"
proof -
  have "int n < 2 ^ 31" using assms by (metis of_nat_less_numeral_power_cancel_iff)
  then have "signed_take_bit 31 (int n) = int n"
    by (intro signed_take_bit_int_eq_self) auto
  then show ?thesis by (simp add: signed_of_nat)
qed

lemma unat_of_nat_small:
  assumes "n < 2 ^ 31"
  shows "unat (of_nat n :: cint) = n"
proof -
  have "n < 2 ^ 32" using assms by simp
  then show ?thesis by (simp add: unat_of_nat)
qed

section \<open>The loop of getTgtRect\<close>

lemma Min_insert_min:
  fixes u v :: int
  assumes "finite S"
  shows "Min (insert (min u v) S) = Min (insert u (insert v S))"
  using assms by (cases "S = {}") (simp_all add: min.assoc)

lemma Max_insert_max:
  fixes u v :: int
  assumes "finite S"
  shows "Max (insert (max u v) S) = Max (insert u (insert v S))"
  using assms by (cases "S = {}") (simp_all add: max.assoc)

lemma sint_if_sless_min:
  "sint (if a <s b then a else b) = min (sint a) (sint b)"
  by (simp add: word_sless_alt min_def)

lemma sint_if_sless_max:
  "sint (if b <s a then a else b) = max (sint a) (sint b)"
  by (simp add: word_sless_alt max_def)

lemma getTgtRect_loop_sint:
  "getTgtRect_loop ps ltx lty rbx rby = (a, b, c, d) \<Longrightarrow>
     sint a = Min (insert (sint ltx) ((\<lambda>p. sint (OBJPos.x p)) ` set ps)) \<and>
     sint b = Min (insert (sint lty) ((\<lambda>p. sint (OBJPos.y p)) ` set ps)) \<and>
     sint c = Max (insert (sint rbx) ((\<lambda>p. sint (OBJPos.x p)) ` set ps)) \<and>
     sint d = Max (insert (sint rby) ((\<lambda>p. sint (OBJPos.y p)) ` set ps))"
proof (induction ps arbitrary: ltx lty rbx rby)
  case Nil
  then show ?case by simp
next
  case (Cons p ps)
  from Cons.prems have
    "getTgtRect_loop ps
       (if OBJPos.x p <s ltx then OBJPos.x p else ltx)
       (if OBJPos.y p <s lty then OBJPos.y p else lty)
       (if rbx <s OBJPos.x p then OBJPos.x p else rbx)
       (if rby <s OBJPos.y p then OBJPos.y p else rby) = (a, b, c, d)"
    by simp
  from Cons.IH [OF this] show ?case
    by (simp only: sint_if_sless_min sint_if_sless_max list.set image_insert
        Min_insert_min Max_insert_max finite_imageI finite_set insert_commute)
qed

text \<open>The two max accumulators do not depend on the seeds of the two min accumulators.\<close>

lemma getTgtRect_loop_max_seed:
  "snd (snd (getTgtRect_loop ps ltx lty rbx rby)) =
   snd (snd (getTgtRect_loop ps ltx2 lty2 rbx rby))"
  by (induction ps arbitrary: ltx lty ltx2 lty2 rbx rby) simp_all

lemma getTgtRect_far_corner:
  "cv_Rect.x (getTgtRect vertices cam_width cam_height)
     + cv_Rect.width (getTgtRect vertices cam_width cam_height)
     = fst (snd (snd (getTgtRect_loop vertices cam_width cam_height 0 0)))
   \<and> cv_Rect.y (getTgtRect vertices cam_width cam_height)
     + cv_Rect.height (getTgtRect vertices cam_width cam_height)
     = snd (snd (snd (getTgtRect_loop vertices cam_width cam_height 0 0)))"
  by (simp add: getTgtRect_def split: prod.splits)

lemma getTgtRect_Nil:
  "getTgtRect [] w h = \<lparr>cv_Rect.x = w, y = h, width = - w, height = - h\<rparr>"
  by (simp add: getTgtRect_def)

section \<open>The loop of detectHeads\<close>

lemma translate_loop_from:
  assumes small: "length outp < 2 ^ 31" and le: "n \<le> length outp"
  shows "translate_loop tgtRect outp (of_nat (length outp)) (of_nat n) acc =
    acc @ map (\<lambda>d. \<lparr>Rect.x = cv_Rect.x (box d) + cv_Rect.x tgtRect,
                      y = cv_Rect.y (box d) + cv_Rect.y tgtRect,
                      width = cv_Rect.width (box d),
                      height = cv_Rect.height (box d),
                      confidence = Detection.confidence d\<rparr>) (drop n outp)"
  using le
proof (induction "length outp - n" arbitrary: n acc)
  case 0
  then have "n = length outp" by simp
  then show ?case
    by (subst translate_loop.simps) simp
next
  case (Suc k)
  then have lt: "n < length outp" and k: "k = length outp - Suc n"
    and le': "Suc n \<le> length outp"
    by simp_all
  have n_small: "n < 2 ^ 31" using lt small by simp
  have cond: "(of_nat n :: cint) <s of_nat (length outp)"
    using lt by (simp add: word_sless_alt sint_of_nat_small [OF small]
        sint_of_nat_small [OF n_small])
  have idx: "unat (of_nat n :: cint) = n" by (rule unat_of_nat_small [OF n_small])
  have next_i: "(of_nat n :: cint) + 1 = of_nat (Suc n)" by simp
  have dr: "drop n outp = outp ! n # drop (Suc n) outp"
    using lt by (simp add: Cons_nth_drop_Suc)
  show ?case
    by (subst translate_loop.simps)
      (simp only: cond if_True Let_def idx next_i Suc.hyps(1) [OF k le'] dr
        list.map append_assoc append_Cons append_Nil)
qed

lemma translate_loop_all:
  assumes "length outp < 2 ^ 31"
  shows "translate_loop tgtRect outp (of_nat (length outp)) 0 [] =
    map (\<lambda>d. \<lparr>Rect.x = cv_Rect.x (box d) + cv_Rect.x tgtRect,
                y = cv_Rect.y (box d) + cv_Rect.y tgtRect,
                width = cv_Rect.width (box d),
                height = cv_Rect.height (box d),
                confidence = Detection.confidence d\<rparr>) outp"
  using translate_loop_from [OF assms, of 0 tgtRect "[]"] by simp

section \<open>The paths through detectHeads\<close>

lemma imdecode_nonempty:
  assumes dec: "imdecode codec buf w0 = (Inr img, w1)" and ne: "\<not> Mat_empty img"
  shows "buffer img = Some (length (mats w0)) \<and> origin img = (0, 0)
    \<and> (\<exists>pix. w1 = w0\<lparr>mats := mats w0 @ [pix]\<rparr>)
    \<and> cols img \<noteq> 0 \<and> rows img \<noteq> 0"
proof -
  from dec obtain r where r: "codec buf = Inr r"
    by (cases "codec buf") (simp_all add: imdecode_def)
  have "r \<noteq> None"
    using dec ne by (auto simp: r imdecode_def Mat_empty_def Mat_none_def split: option.splits)
  then obtain pix where "codec buf = Inr (Some pix)"
    using r by auto
  with dec have "img = \<lparr>buffer = Some (length (mats w0)), origin = (0, 0),
            rows = of_nat (length pix),
            cols = of_nat (case pix of [] \<Rightarrow> 0 | r # _ \<Rightarrow> length r)\<rparr>"
    and "w1 = w0\<lparr>mats := mats w0 @ [pix]\<rparr>"
    by (simp_all add: imdecode_def)
  with ne show ?thesis by (auto simp: Mat_empty_def)
qed

lemma Mat_roi_degenerate:
  assumes "cols m \<noteq> 0"
  shows "Mat_roi m (getTgtRect [] (cols m) (rows m)) = Inl cv_Exception"
  using not_both_nonneg [OF assms] by (simp add: Mat_roi_def getTgtRect_Nil)

lemma detectHeads_success:
  assumes dec: "imdecode (decode E) jpegData w0 = (Inr img, w1)"
    and ne: "\<not> Mat_empty img"
    and roi: "Mat_roi img (getTgtRect vertices (cols img) (rows img)) = Inr view"
    and cl: "Mat_clone view w1 = (src, w2)"
    and run: "runInference E src
        (w2\<lparr>inf' := setThresholds E (confidenceThreshold thresholds)
           (scoreThreshold thresholds) (nmsThreshold thresholds) (inf' w2)\<rparr>) = (Inr outp, w4)"
  shows "detectHeads E jpegData vertices thresholds w0 =
    (Inr (translate_loop (getTgtRect vertices (cols img) (rows img)) outp
            (of_nat (length outp)) 0 []), thresholds, w4)"
  using ne by (simp add: detectHeads_def dec roi cl run spdlog_trace_def)

section \<open>The test doubles, step by step\<close>

lemma stub_image_size:
  "length stub_image = 6"
  "(case stub_image of [] \<Rightarrow> 0 | r # _ \<Rightarrow> length r) = 8"
  by (simp_all add: stub_image_def eval_nat_numeral)

lemma stub_dec:
  "imdecode (decode stub_extern) stub_jpeg stub_world =
     (Inr \<lparr>buffer = Some 0, origin = (0, 0), rows = 6, cols = 8\<rparr>,
      stub_world\<lparr>mats := mats stub_world @ [stub_image]\<rparr>)"
  by (simp add: imdecode_def stub_extern_def stub_jpeg_def stub_world_def stub_image_size)

lemma stub_ne:
  "\<not> Mat_empty \<lparr>buffer = Some 0, origin = (0, 0), rows = 6, cols = 8\<rparr>"
  by (simp add: Mat_empty_def)

lemma stub_rect:
  "getTgtRect stub_triangle 8 6 = \<lparr>cv_Rect.x = 1, y = 1, width = 4, height = 3\<rparr>"
  by (simp add: getTgtRect_def stub_triangle_def word_sless_alt)

lemma stub_roi:
  "Mat_roi \<lparr>buffer = Some 0, origin = (0, 0), rows = 6, cols = 8\<rparr>
      (getTgtRect stub_triangle
         (cols \<lparr>buffer = Some 0, origin = (0, 0), rows = 6, cols = 8\<rparr>)
         (rows \<lparr>buffer = Some 0, origin = (0, 0), rows = 6, cols = 8\<rparr>))
     = Inr \<lparr>buffer = Some 0, origin = (1, 1), rows = 3, cols = 4\<rparr>"
  by (simp add: stub_rect Mat_roi_def word_sle_eq)

lemma stub_cl:
  "Mat_clone \<lparr>buffer = Some 0, origin = (1, 1), rows = 3, cols = 4\<rparr>
      (stub_world\<lparr>mats := mats stub_world @ [stub_image]\<rparr>)
     = (\<lparr>buffer = Some 1, origin = (0, 0), rows = 3, cols = 4\<rparr>,
        \<lparr>mats = [stub_image, replicate 3 (replicate 4 (0, 0, 0))],
         inf' = (0, 0, 0), spdlog = []\<rparr>)"
  by (simp add: Mat_clone_def Mat_empty_def pixels_of_def stub_world_def stub_image_def)

lemma stub_run:
  "runInference stub_extern \<lparr>buffer = Some 1, origin = (0, 0), rows = 3, cols = 4\<rparr>
      (\<lparr>mats = [stub_image, replicate 3 (replicate 4 (0, 0, 0))],
        inf' = (0, 0, 0), spdlog = []\<rparr>
         \<lparr>inf' := setThresholds stub_extern
            (confidenceThreshold stub_thresholds) (scoreThreshold stub_thresholds)
            (nmsThreshold stub_thresholds)
            (inf' \<lparr>mats = [stub_image, replicate 3 (replicate 4 (0, 0, 0))],
                   inf' = (0, 0, 0), spdlog = []\<rparr>)\<rparr>)
     = (Inr stub_output,
        \<lparr>mats = [stub_image, []], inf' = (0.2, 0.3, 0.4), spdlog = []\<rparr>)"
  by (simp add: stub_extern_def stub_thresholds_def)

lemma stub_small: "length stub_output < 2 ^ 31"
  by (simp add: stub_output_def)

section \<open>The claims\<close>

text \<open>
  C1. When the image decodes, the crop succeeds and the detector returns its boxes
  (fewer than \<open>2\<^sup>3\<^sup>1\<close>, so that their count fits the \<^verbatim>\<open>int\<close> counter of the loop),
  detectHeads returns one result for each box \<open>b\<close>, at the same index, with
  \<open>x = b.x + rect.x\<close>, \<open>y = b.y + rect.y\<close> and width, height and confidence copied,
  where \<open>rect\<close> is the rectangle getTgtRect returned.
\<close>

theorem detectHeads_translates_boxes:
  assumes dec: "imdecode (decode E) jpegData w0 = (Inr img, w1)"
    and ne: "\<not> Mat_empty img"
    and roi: "Mat_roi img (getTgtRect vertices (cols img) (rows img)) = Inr view"
    and cl: "Mat_clone view w1 = (src, w2)"
    and run: "runInference E src
        (w2\<lparr>inf' := setThresholds E (confidenceThreshold thresholds)
           (scoreThreshold thresholds) (nmsThreshold thresholds) (inf' w2)\<rparr>) = (Inr outp, w4)"
    and small: "length outp < 2 ^ 31"
  shows "\<exists>results. fst (detectHeads E jpegData vertices thresholds w0) = Inr results
    \<and> length results = length outp
    \<and> (\<forall>i < length outp. results ! i =
          \<lparr>Rect.x = cv_Rect.x (box (outp ! i))
                     + cv_Rect.x (getTgtRect vertices (cols img) (rows img)),
           y = cv_Rect.y (box (outp ! i))
               + cv_Rect.y (getTgtRect vertices (cols img) (rows img)),
           width = cv_Rect.width (box (outp ! i)),
           height = cv_Rect.height (box (outp ! i)),
           confidence = Detection.confidence (outp ! i)\<rparr>)"
  by (simp add: detectHeads_success [OF dec ne roi cl run] translate_loop_all [OF small])

theorem detectHeads_translates_boxes_witness:
  "\<exists>results.
     fst (detectHeads stub_extern stub_jpeg stub_triangle stub_thresholds stub_world)
       = Inr results
     \<and> length results = 2
     \<and> results ! 0 = \<lparr>Rect.x = 4, y = 3, width = 1, height = 1, confidence = 0.9\<rparr>
     \<and> results ! 1 = \<lparr>Rect.x = 1, y = 1, width = 2, height = 2, confidence = 0.5\<rparr>"
proof -
  from detectHeads_translates_boxes
    [OF stub_dec stub_ne stub_roi stub_cl stub_run stub_small]
  obtain results where
    res: "fst (detectHeads stub_extern stub_jpeg stub_triangle stub_thresholds stub_world)
            = Inr results"
    and len: "length results = length stub_output"
    and at: "\<And>i. i < length stub_output \<Longrightarrow> results ! i =
          \<lparr>Rect.x = cv_Rect.x (box (stub_output ! i)) + cv_Rect.x (getTgtRect stub_triangle 8 6),
           y = cv_Rect.y (box (stub_output ! i)) + cv_Rect.y (getTgtRect stub_triangle 8 6),
           width = cv_Rect.width (box (stub_output ! i)),
           height = cv_Rect.height (box (stub_output ! i)),
           confidence = Detection.confidence (stub_output ! i)\<rparr>"
    by auto
  have "results ! 0 = \<lparr>Rect.x = 4, y = 3, width = 1, height = 1, confidence = 0.9\<rparr>"
    using at [of 0] by (simp add: stub_rect stub_output_def)
  moreover
  have "results ! 1 = \<lparr>Rect.x = 1, y = 1, width = 2, height = 2, confidence = 0.5\<rparr>"
    using at [of 1] by (simp add: stub_rect stub_output_def)
  moreover have "length results = 2" using len by (simp add: stub_output_def)
  ultimately show ?thesis using res by blast
qed

text \<open>
  C2. For a non-empty vertex sequence with every coordinate in
  \<open>[0, cam_width] \<times> [0, cam_height]\<close>, getTgtRect returns \<open>x\<close> the least vertex x,
  \<open>y\<close> the least vertex y, \<open>width\<close> the greatest x minus the least x and \<open>height\<close>
  the greatest y minus the least y (as signed values, no subtraction overflows).
\<close>

theorem getTgtRect_bounding:
  assumes nonempty: "vertices \<noteq> []"
    and inside: "\<forall>p \<in> set vertices.
        0 \<le>s OBJPos.x p \<and> OBJPos.x p \<le>s cam_width \<and>
        0 \<le>s OBJPos.y p \<and> OBJPos.y p \<le>s cam_height"
  shows "sint (cv_Rect.x (getTgtRect vertices cam_width cam_height))
           = Min ((\<lambda>p. sint (OBJPos.x p)) ` set vertices)
       \<and> sint (cv_Rect.y (getTgtRect vertices cam_width cam_height))
           = Min ((\<lambda>p. sint (OBJPos.y p)) ` set vertices)
       \<and> sint (cv_Rect.width (getTgtRect vertices cam_width cam_height))
           = Max ((\<lambda>p. sint (OBJPos.x p)) ` set vertices)
             - Min ((\<lambda>p. sint (OBJPos.x p)) ` set vertices)
       \<and> sint (cv_Rect.height (getTgtRect vertices cam_width cam_height))
           = Max ((\<lambda>p. sint (OBJPos.y p)) ` set vertices)
             - Min ((\<lambda>p. sint (OBJPos.y p)) ` set vertices)"
proof -
  let ?X = "(\<lambda>p. sint (OBJPos.x p)) ` set vertices"
  let ?Y = "(\<lambda>p. sint (OBJPos.y p)) ` set vertices"
  obtain ltx lty rbx rby where
    loop: "getTgtRect_loop vertices cam_width cam_height 0 0 = (ltx, lty, rbx, rby)"
    by (metis prod_cases4)
  have fin: "finite ?X" "finite ?Y" and ne: "?X \<noteq> {}" "?Y \<noteq> {}"
    using nonempty by simp_all
  have X: "\<forall>v \<in> ?X. 0 \<le> v \<and> v \<le> sint cam_width"
    and Y: "\<forall>v \<in> ?Y. 0 \<le> v \<and> v \<le> sint cam_height"
    using inside by (auto simp: word_sle_eq)
  from getTgtRect_loop_sint [OF loop]
  have raw: "sint ltx = Min (insert (sint cam_width) ?X)"
    "sint lty = Min (insert (sint cam_height) ?Y)"
    "sint rbx = Max (insert 0 ?X)" "sint rby = Max (insert 0 ?Y)"
    by simp_all
  have "Min ?X \<le> sint cam_width" "Min ?Y \<le> sint cam_height"
    using X Y fin ne by (meson Min_in)+
  then have lt: "sint ltx = Min ?X" "sint lty = Min ?Y"
    unfolding raw Min_insert [OF fin(1) ne(1)] Min_insert [OF fin(2) ne(2)]
    by simp_all
  have top: "0 \<le> Max ?X" "0 \<le> Max ?Y"
    using X Y fin ne by (meson Max_in)+
  then have rb: "sint rbx = Max ?X" "sint rby = Max ?Y"
    unfolding raw Max_insert [OF fin(1) ne(1)] Max_insert [OF fin(2) ne(2)]
    by simp_all
  have "0 \<le> Min ?X" "0 \<le> Min ?Y"
    using X Y fin ne by (meson Min_in)+
  then have pos: "0 \<le> sint ltx" "0 \<le> sint lty" "0 \<le> sint rbx" "0 \<le> sint rby"
    using lt rb top by simp_all
  have "sint (rbx - ltx) = Max ?X - Min ?X" "sint (rby - lty) = Max ?Y - Min ?Y"
    using pos lt rb by (simp_all add: sint_diff_nonneg)
  with lt show ?thesis
    by (simp add: getTgtRect_def loop)
qed

theorem getTgtRect_bounding_witness:
  "getTgtRect [\<lparr>OBJPos.x = 10, y = 20\<rparr>, \<lparr>OBJPos.x = 100, y = 20\<rparr>,
               \<lparr>OBJPos.x = 100, y = 80\<rparr>, \<lparr>OBJPos.x = 10, y = 80\<rparr>] 640 480
     = \<lparr>cv_Rect.x = 10, y = 20, width = 90, height = 60\<rparr>
   \<and> sint (cv_Rect.x (getTgtRect [\<lparr>OBJPos.x = 10, y = 20\<rparr>, \<lparr>OBJPos.x = 100, y = 20\<rparr>,
               \<lparr>OBJPos.x = 100, y = 80\<rparr>, \<lparr>OBJPos.x = 10, y = 80\<rparr>] 640 480))
       = Min {10, 100}
   \<and> sint (cv_Rect.y (getTgtRect [\<lparr>OBJPos.x = 10, y = 20\<rparr>, \<lparr>OBJPos.x = 100, y = 20\<rparr>,
               \<lparr>OBJPos.x = 100, y = 80\<rparr>, \<lparr>OBJPos.x = 10, y = 80\<rparr>] 640 480))
       = Min {20, 80}
   \<and> sint (cv_Rect.width (getTgtRect [\<lparr>OBJPos.x = 10, y = 20\<rparr>, \<lparr>OBJPos.x = 100, y = 20\<rparr>,
               \<lparr>OBJPos.x = 100, y = 80\<rparr>, \<lparr>OBJPos.x = 10, y = 80\<rparr>] 640 480))
       = Max {10, 100} - Min {10, 100}
   \<and> sint (cv_Rect.height (getTgtRect [\<lparr>OBJPos.x = 10, y = 20\<rparr>, \<lparr>OBJPos.x = 100, y = 20\<rparr>,
               \<lparr>OBJPos.x = 100, y = 80\<rparr>, \<lparr>OBJPos.x = 10, y = 80\<rparr>] 640 480))
       = Max {20, 80} - Min {20, 80}"
proof -
  let ?vs = "[\<lparr>OBJPos.x = 10, y = 20\<rparr>, \<lparr>OBJPos.x = 100, y = 20\<rparr>,
               \<lparr>OBJPos.x = 100, y = 80\<rparr>, \<lparr>OBJPos.x = 10, y = 80\<rparr>]"
  have h1: "?vs \<noteq> []" by simp
  have h2: "\<forall>p \<in> set ?vs.
        0 \<le>s OBJPos.x p \<and> OBJPos.x p \<le>s 640 \<and>
        0 \<le>s OBJPos.y p \<and> OBJPos.y p \<le>s 480"
    by (simp add: word_sle_eq)
  have val: "getTgtRect ?vs 640 480 = \<lparr>cv_Rect.x = 10, y = 20, width = 90, height = 60\<rparr>"
    by (simp add: getTgtRect_def word_sless_alt)
  from getTgtRect_bounding [OF h1 h2] val show ?thesis
    by simp
qed

text \<open>
  C3, as amended. For an empty vertex sequence and an image that decodes, no
  InvalidArea error is raised: getTgtRect returns a rectangle and detectHeads hands it
  to the crop. The call then fails with the \<^verbatim>\<open>cv::Exception\<close> of OpenCV's range
  assertion, in the state the decoding left: the detector is neither configured nor
  invoked.
\<close>

theorem detectHeads_empty_vertices:
  assumes dec: "imdecode (decode E) jpegData w0 = (Inr img, w1)"
    and ne: "\<not> Mat_empty img"
  shows "detectHeads E jpegData [] thresholds w0 = (Inl cv_Exception, thresholds, w1)"
proof -
  from imdecode_nonempty [OF dec ne] have "cols img \<noteq> 0" by simp
  from Mat_roi_degenerate [OF this] ne show ?thesis
    by (simp add: detectHeads_def dec)
qed

theorem detectHeads_empty_vertices_witness:
  "detectHeads stub_extern stub_jpeg [] stub_thresholds stub_world =
     (Inl cv_Exception, stub_thresholds,
      \<lparr>mats = [stub_image], inf' = (0, 0, 0), spdlog = []\<rparr>)"
  using detectHeads_empty_vertices [OF stub_dec stub_ne]
  by (simp add: stub_world_def)

text \<open>
  The claim C3 itself fails. With bytes that do not decode the call returns normally,
  with an empty list. With an image 8 by 6 the rectangle (8, 6, -8, -6) is produced
  without any error and what stops the call is the crop.
\<close>

theorem detectHeads_empty_vertices_counterexample:
  "fst (detectHeads stub_extern stub_garbage [] stub_thresholds stub_world) = Inr []
   \<and> getTgtRect [] 8 6 = \<lparr>cv_Rect.x = 8, y = 6, width = - 8, height = - 6\<rparr>
   \<and> Mat_roi \<lparr>buffer = Some 0, origin = (0, 0), rows = 6, cols = 8\<rparr>
        \<lparr>cv_Rect.x = 8, y = 6, width = - 8, height = - 6\<rparr> = Inl cv_Exception
   \<and> fst (detectHeads stub_extern stub_jpeg [] stub_thresholds stub_world)
        = Inl cv_Exception"
proof (intro conjI)
  show "fst (detectHeads stub_extern stub_garbage [] stub_thresholds stub_world) = Inr []"
    by (simp add: detectHeads_def imdecode_def stub_extern_def stub_garbage_def
        Mat_empty_def Mat_none_def)
  show "getTgtRect [] 8 6 = \<lparr>cv_Rect.x = 8, y = 6, width = - 8, height = - 6\<rparr>"
    by (simp add: getTgtRect_def)
  show "Mat_roi \<lparr>buffer = Some 0, origin = (0, 0), rows = 6, cols = 8\<rparr>
        \<lparr>cv_Rect.x = 8, y = 6, width = - 8, height = - 6\<rparr> = Inl cv_Exception"
    by (simp add: Mat_roi_def word_sle_eq)
  then show "fst (detectHeads stub_extern stub_jpeg [] stub_thresholds stub_world)
        = Inl cv_Exception"
    by (simp add: detectHeads_def stub_dec stub_ne getTgtRect_def)
qed

text \<open>
  C4, as amended. When the bounding rectangle has width 0 or height 0 and passes the
  range assertion of the crop, no EmptyRegion error is raised: the crop and its clone
  are the matrix without data, the thresholds are set and the detector is invoked on
  that matrix. detectHeads returns the translation of whatever the detector returns,
  or fails with what the detector throws.
\<close>

theorem detectHeads_zero_area:
  assumes dec: "imdecode (decode E) jpegData w0 = (Inr img, w1)"
    and ne: "\<not> Mat_empty img"
    and zero: "cv_Rect.width (getTgtRect vertices (cols img) (rows img)) = 0
             \<or> cv_Rect.height (getTgtRect vertices (cols img) (rows img)) = 0"
    and roi: "Mat_roi img (getTgtRect vertices (cols img) (rows img)) = Inr view"
  shows "view = Mat_none \<and> Mat_clone view w1 = (Mat_none, w1)
    \<and> detectHeads E jpegData vertices thresholds w0 =
        (case runInference E Mat_none
                (w1\<lparr>inf' := setThresholds E (confidenceThreshold thresholds)
                   (scoreThreshold thresholds) (nmsThreshold thresholds) (inf' w1)\<rparr>) of
           (Inl e, w4) \<Rightarrow> (Inl e, thresholds, w4)
         | (Inr outp, w4) \<Rightarrow>
             (Inr (translate_loop (getTgtRect vertices (cols img) (rows img)) outp
                     (of_nat (length outp)) 0 []),
              thresholds, w4))"
proof -
  from zero roi have view: "view = Mat_none"
    by (auto simp: Mat_roi_def split: if_splits)
  have cl: "Mat_clone Mat_none w1 = (Mat_none, w1)"
    by (simp add: Mat_clone_def Mat_empty_def Mat_none_def)
  show ?thesis
    using ne
    by (simp add: view cl detectHeads_def dec roi [unfolded view] spdlog_trace_def
        split: prod.splits sum.splits)
qed

theorem detectHeads_zero_area_witness:
  "getTgtRect [\<lparr>OBJPos.x = 2, y = 1\<rparr>, \<lparr>OBJPos.x = 2, y = 4\<rparr>] 8 6
     = \<lparr>cv_Rect.x = 2, y = 1, width = 0, height = 3\<rparr>
   \<and> fst (detectHeads stub_extern stub_jpeg
       [\<lparr>OBJPos.x = 2, y = 1\<rparr>, \<lparr>OBJPos.x = 2, y = 4\<rparr>] stub_thresholds stub_world)
     = Inr [\<lparr>Rect.x = 5, y = 3, width = 1, height = 1, confidence = 0.9\<rparr>,
            \<lparr>Rect.x = 2, y = 1, width = 2, height = 2, confidence = 0.5\<rparr>]"
proof -
  let ?img = "\<lparr>buffer = Some 0, origin = (0, 0), rows = 6, cols = 8\<rparr>"
  let ?vs = "[\<lparr>OBJPos.x = 2, y = 1\<rparr>, \<lparr>OBJPos.x = 2, y = 4\<rparr>]"
  have rect: "getTgtRect ?vs 8 6 = \<lparr>cv_Rect.x = 2, y = 1, width = 0, height = 3\<rparr>"
    by (simp add: getTgtRect_def word_sless_alt)
  have zero: "cv_Rect.width (getTgtRect ?vs (cols ?img) (rows ?img)) = 0
      \<or> cv_Rect.height (getTgtRect ?vs (cols ?img) (rows ?img)) = 0"
    by (simp add: rect)
  have roi: "Mat_roi ?img (getTgtRect ?vs (cols ?img) (rows ?img)) = Inr Mat_none"
    by (simp add: rect Mat_roi_def word_sle_eq)
  have loop: "translate_loop \<lparr>cv_Rect.x = 2, y = 1, width = 0, height = 3\<rparr> stub_output
      (of_nat (length stub_output)) 0 []
     = [\<lparr>Rect.x = 5, y = 3, width = 1, height = 1, confidence = 0.9\<rparr>,
        \<lparr>Rect.x = 2, y = 1, width = 2, height = 2, confidence = 0.5\<rparr>]"
    by (simp add: translate_loop_all [OF stub_small]) (simp add: stub_output_def)
  from detectHeads_zero_area [OF stub_dec stub_ne zero roi, of stub_thresholds]
  show ?thesis
    using rect loop by (simp add: stub_extern_def Mat_none_def)
qed

text \<open>
  The claim C4 itself fails. In an image 8 by 6 the single vertex (5, 4) gives the
  rectangle (5, 4, 0, 0); the call does not fail, and the boxes of the detector come
  back translated by (5, 4): the detector was invoked on the empty crop.
\<close>

theorem detectHeads_zero_area_counterexample:
  "getTgtRect [\<lparr>OBJPos.x = 5, y = 4\<rparr>] 8 6 = \<lparr>cv_Rect.x = 5, y = 4, width = 0, height = 0\<rparr>
   \<and> Mat_roi \<lparr>buffer = Some 0, origin = (0, 0), rows = 6, cols = 8\<rparr>
        \<lparr>cv_Rect.x = 5, y = 4, width = 0, height = 0\<rparr> = Inr Mat_none
   \<and> fst (detectHeads stub_extern stub_jpeg [\<lparr>OBJPos.x = 5, y = 4\<rparr>]
            stub_thresholds stub_world)
     = Inr [\<lparr>Rect.x = 8, y = 6, width = 1, height = 1, confidence = 0.9\<rparr>,
            \<lparr>Rect.x = 5, y = 4, width = 2, height = 2, confidence = 0.5\<rparr>]"
proof (intro conjI)
  show rect: "getTgtRect [\<lparr>OBJPos.x = 5, y = 4\<rparr>] 8 6
      = \<lparr>cv_Rect.x = 5, y = 4, width = 0, height = 0\<rparr>"
    by (simp add: getTgtRect_def word_sless_alt)
  show roi: "Mat_roi \<lparr>buffer = Some 0, origin = (0, 0), rows = 6, cols = 8\<rparr>
        \<lparr>cv_Rect.x = 5, y = 4, width = 0, height = 0\<rparr> = Inr Mat_none"
    by (simp add: Mat_roi_def word_sle_eq)
  have cl: "\<And>w. Mat_clone Mat_none w = (Mat_none, w)"
    by (simp add: Mat_clone_def Mat_empty_def Mat_none_def)
  have loop: "translate_loop \<lparr>cv_Rect.x = 5, y = 4, width = 0, height = 0\<rparr> stub_output
      (of_nat (length stub_output)) 0 []
     = [\<lparr>Rect.x = 8, y = 6, width = 1, height = 1, confidence = 0.9\<rparr>,
        \<lparr>Rect.x = 5, y = 4, width = 2, height = 2, confidence = 0.5\<rparr>]"
    by (simp add: translate_loop_all [OF stub_small]) (simp add: stub_output_def)
  show "fst (detectHeads stub_extern stub_jpeg [\<lparr>OBJPos.x = 5, y = 4\<rparr>]
            stub_thresholds stub_world)
     = Inr [\<lparr>Rect.x = 8, y = 6, width = 1, height = 1, confidence = 0.9\<rparr>,
            \<lparr>Rect.x = 5, y = 4, width = 2, height = 2, confidence = 0.5\<rparr>]"
    using stub_ne
    by (simp add: detectHeads_def stub_dec rect roi cl)
      (simp add: stub_extern_def loop)
qed

text \<open>
  C5, as amended. For bytes the codec rejects, detectHeads returns the empty list, the
  value a call with no detection returns, and raises no error: the failure shows only
  as a line of the log. Nothing else happens: no buffer is allocated and the Inference
  object is as before, so there was no crop and no detection.
\<close>

theorem detectHeads_decode_failure:
  assumes "decode E jpegData = Inr None"
  shows "detectHeads E jpegData vertices thresholds w0 =
    (Inr [], thresholds, w0\<lparr>spdlog := spdlog w0 @ [''Failed to decode JPEG data.'']\<rparr>)"
  using assms
  by (simp add: detectHeads_def imdecode_def Mat_empty_def Mat_none_def spdlog_error_def)

theorem detectHeads_decode_failure_witness:
  "detectHeads stub_extern stub_garbage stub_triangle stub_thresholds stub_world =
    (Inr [], stub_thresholds,
     \<lparr>mats = [], inf' = (0, 0, 0), spdlog = [''Failed to decode JPEG data.'']\<rparr>)"
proof -
  have "decode stub_extern stub_garbage = Inr None"
    by (simp add: stub_extern_def stub_garbage_def)
  from detectHeads_decode_failure [OF this] show ?thesis
    by (simp add: stub_world_def)
qed

text \<open>
  The claim C5 itself fails: the empty buffer, which does not decode, and a buffer that
  decodes to an image in which the detector finds nothing give the same result.
\<close>

theorem detectHeads_decode_failure_counterexample:
  "fst (detectHeads stub_extern stub_garbage stub_triangle stub_thresholds stub_world) = Inr []
   \<and> fst (detectHeads stub_silent stub_jpeg stub_triangle stub_thresholds stub_world)
       = Inr []
   \<and> fst (detectHeads stub_extern stub_garbage stub_triangle stub_thresholds stub_world)
     = fst (detectHeads stub_silent stub_jpeg stub_triangle stub_thresholds stub_world)"
proof -
  have a: "fst (detectHeads stub_extern stub_garbage stub_triangle stub_thresholds stub_world) = Inr []"
    by (simp add: detectHeads_def imdecode_def stub_extern_def stub_garbage_def
        Mat_empty_def Mat_none_def)
  have codec: "decode stub_silent = decode stub_extern"
    by (simp add: stub_silent_def)
  have run: "runInference stub_silent m w = (Inr [], w)"
    for m and w :: "(real \<times> real \<times> real) world"
    by (simp add: stub_silent_def)
  have empty: "translate_loop tgtRect [] 0 0 [] = []"
    for tgtRect :: cv_Rect
    by (subst translate_loop.simps) simp
  have b: "fst (detectHeads stub_silent stub_jpeg stub_triangle stub_thresholds stub_world)
      = Inr []"
    by (simp add: detectHeads_success
        [OF stub_dec [folded codec] stub_ne stub_roi stub_cl run] empty)
  from a b show ?thesis by simp
qed

text \<open>
  C6. \<open>cam_width\<close> and \<open>cam_height\<close> only seed the two min accumulators: the
  corner \<open>(x, y)\<close> of the rectangle getTgtRect returns is the least of the seed and
  the vertex coordinates, and its right and bottom edges do not depend on the image
  size at all, so nothing is clamped. A vertex beyond the image then puts the
  rectangle beyond it: in an image 640 by 480 the vertices (10, 20) and (700, 500)
  give the rectangle (10, 20, 690, 480), whose right edge 700 and bottom edge 500 are
  outside.
\<close>

theorem getTgtRect_not_clamped:
  "(\<forall>vertices cam_width cam_height.
      sint (cv_Rect.x (getTgtRect vertices cam_width cam_height))
        = Min (insert (sint cam_width) ((\<lambda>p. sint (OBJPos.x p)) ` set vertices))
      \<and> sint (cv_Rect.y (getTgtRect vertices cam_width cam_height))
        = Min (insert (sint cam_height) ((\<lambda>p. sint (OBJPos.y p)) ` set vertices)))
   \<and> (\<forall>vertices cam_width cam_height cam_width2 cam_height2.
      cv_Rect.x (getTgtRect vertices cam_width cam_height)
        + cv_Rect.width (getTgtRect vertices cam_width cam_height)
      = cv_Rect.x (getTgtRect vertices cam_width2 cam_height2)
        + cv_Rect.width (getTgtRect vertices cam_width2 cam_height2)
      \<and> cv_Rect.y (getTgtRect vertices cam_width cam_height)
        + cv_Rect.height (getTgtRect vertices cam_width cam_height)
      = cv_Rect.y (getTgtRect vertices cam_width2 cam_height2)
        + cv_Rect.height (getTgtRect vertices cam_width2 cam_height2))
   \<and> getTgtRect [\<lparr>OBJPos.x = 10, y = 20\<rparr>, \<lparr>OBJPos.x = 700, y = 500\<rparr>] 640 480
       = \<lparr>cv_Rect.x = 10, y = 20, width = 690, height = 480\<rparr>
   \<and> (\<exists>vertices cam_width cam_height p.
        vertices \<noteq> [] \<and> p \<in> set vertices
        \<and> sint cam_width < sint (OBJPos.x p) \<and> sint cam_height < sint (OBJPos.y p)
        \<and> sint cam_width
            < sint (cv_Rect.x (getTgtRect vertices cam_width cam_height))
              + sint (cv_Rect.width (getTgtRect vertices cam_width cam_height))
        \<and> sint cam_height
            < sint (cv_Rect.y (getTgtRect vertices cam_width cam_height))
              + sint (cv_Rect.height (getTgtRect vertices cam_width cam_height)))"
proof (intro conjI allI)
  fix vertices :: "OBJPos list" and cw ch :: cint
  obtain ltx lty rbx rby where
    loop: "getTgtRect_loop vertices cw ch 0 0 = (ltx, lty, rbx, rby)"
    by (metis prod_cases4)
  from getTgtRect_loop_sint [OF loop]
  show "sint (cv_Rect.x (getTgtRect vertices cw ch))
        = Min (insert (sint cw) ((\<lambda>p. sint (OBJPos.x p)) ` set vertices))"
    and "sint (cv_Rect.y (getTgtRect vertices cw ch))
        = Min (insert (sint ch) ((\<lambda>p. sint (OBJPos.y p)) ` set vertices))"
    by (simp_all add: getTgtRect_def loop)
next
  fix vertices :: "OBJPos list" and cw ch cw2 ch2 :: cint
  have "snd (snd (getTgtRect_loop vertices cw ch 0 0)) =
      snd (snd (getTgtRect_loop vertices cw2 ch2 0 0))"
    by (rule getTgtRect_loop_max_seed)
  then show "cv_Rect.x (getTgtRect vertices cw ch) + cv_Rect.width (getTgtRect vertices cw ch)
      = cv_Rect.x (getTgtRect vertices cw2 ch2) + cv_Rect.width (getTgtRect vertices cw2 ch2)"
    and "cv_Rect.y (getTgtRect vertices cw ch) + cv_Rect.height (getTgtRect vertices cw ch)
      = cv_Rect.y (getTgtRect vertices cw2 ch2) + cv_Rect.height (getTgtRect vertices cw2 ch2)"
    by (simp_all add: getTgtRect_far_corner)
next
  show val: "getTgtRect [\<lparr>OBJPos.x = 10, y = 20\<rparr>, \<lparr>OBJPos.x = 700, y = 500\<rparr>] 640 480
       = \<lparr>cv_Rect.x = 10, y = 20, width = 690, height = 480\<rparr>"
    by (simp add: getTgtRect_def word_sless_alt)
  show "\<exists>vertices cam_width cam_height p.
        vertices \<noteq> [] \<and> p \<in> set vertices
        \<and> sint cam_width < sint (OBJPos.x p) \<and> sint cam_height < sint (OBJPos.y p)
        \<and> sint cam_width
            < sint (cv_Rect.x (getTgtRect vertices cam_width cam_height))
              + sint (cv_Rect.width (getTgtRect vertices cam_width cam_height))
        \<and> sint cam_height
            < sint (cv_Rect.y (getTgtRect vertices cam_width cam_height))
              + sint (cv_Rect.height (getTgtRect vertices cam_width cam_height))"
    by (rule exI [of _ "[\<lparr>OBJPos.x = 10, y = 20\<rparr>, \<lparr>OBJPos.x = 700, y = 500\<rparr>]"],
        rule exI [of _ 640], rule exI [of _ 480],
        rule exI [of _ "\<lparr>OBJPos.x = 700, y = 500\<rparr>"])
      (simp add: val)
qed

text \<open>
  C7. The detector is handed the clone of the crop. Whatever it does to the buffer of
  the matrix it is handed, if it leaves the other buffers as they are then after
  detectHeads the decoded image shows the pixels it showed right after decoding.
\<close>

theorem detectHeads_keeps_image:
  assumes frame: "\<And>m w a. a < length (mats w) \<Longrightarrow> buffer m \<noteq> Some a \<Longrightarrow>
        a < length (mats (snd (runInference E m w)))
        \<and> mats (snd (runInference E m w)) ! a = mats w ! a"
    and dec: "imdecode (decode E) jpegData w0 = (Inr img, w1)"
    and ne: "\<not> Mat_empty img"
    and roi: "Mat_roi img (getTgtRect vertices (cols img) (rows img)) = Inr view"
  shows "pixels_of (snd (snd (detectHeads E jpegData vertices thresholds w0))) img
    = pixels_of w1 img"
proof -
  let ?a = "length (mats w0)"
  from imdecode_nonempty [OF dec ne] obtain pix where
    img: "buffer img = Some ?a" and w1: "w1 = w0\<lparr>mats := mats w0 @ [pix]\<rparr>"
    by auto
  obtain src w2 where cl: "Mat_clone view w1 = (src, w2)"
    by (cases "Mat_clone view w1")
  let ?w3 = "w2\<lparr>inf' := setThresholds E (confidenceThreshold thresholds)
      (scoreThreshold thresholds) (nmsThreshold thresholds) (inf' w2)\<rparr>"
  obtain r w4 where run: "runInference E src ?w3 = (r, w4)"
    by (cases "runInference E src ?w3")
  have src: "buffer src \<noteq> Some ?a"
    using cl by (auto simp: Mat_clone_def Mat_none_def w1 split: if_splits)
  have w2: "?a < length (mats w2) \<and> mats w2 ! ?a = mats w1 ! ?a"
    using cl by (auto simp: Mat_clone_def w1 nth_append split: if_splits)
  then have "?a < length (mats ?w3)" "mats ?w3 ! ?a = mats w1 ! ?a"
    by simp_all
  with frame [of ?a ?w3 src] src run
  have w4: "?a < length (mats w4)" "mats w4 ! ?a = mats w1 ! ?a"
    by simp_all
  have final: "snd (snd (detectHeads E jpegData vertices thresholds w0)) = w4"
    using ne by (simp add: detectHeads_def dec roi cl run spdlog_trace_def split: sum.splits)
  have "?a < length (mats w1)" by (simp add: w1)
  with w4 show ?thesis
    by (simp add: final pixels_of_def img)
qed

theorem detectHeads_keeps_image_witness:
  "pixels_of (snd (snd (detectHeads stub_extern stub_jpeg stub_triangle stub_thresholds
       stub_world))) \<lparr>buffer = Some 0, origin = (0, 0), rows = 6, cols = 8\<rparr> = stub_image
   \<and> mats (snd (snd (detectHeads stub_extern stub_jpeg stub_triangle stub_thresholds
       stub_world))) = [stub_image, []]"
proof -
  have frame: "a < length (mats w) \<Longrightarrow> buffer m \<noteq> Some a \<Longrightarrow>
        a < length (mats (snd (runInference stub_extern m w)))
        \<and> mats (snd (runInference stub_extern m w)) ! a = mats w ! a"
    for m and w :: "(real \<times> real \<times> real) world" and a
    by (cases "buffer m") (simp_all add: stub_extern_def)
  have shown: "pixels_of (stub_world\<lparr>mats := mats stub_world @ [stub_image]\<rparr>)
      \<lparr>buffer = Some 0, origin = (0, 0), rows = 6, cols = 8\<rparr> = stub_image"
    by (simp add: pixels_of_def stub_world_def stub_image_def)
  have final: "mats (snd (snd (detectHeads stub_extern stub_jpeg stub_triangle
      stub_thresholds stub_world))) = [stub_image, []]"
    by (simp add: detectHeads_success [OF stub_dec stub_ne stub_roi stub_cl stub_run])
  from detectHeads_keeps_image [OF frame stub_dec stub_ne stub_roi, of stub_thresholds]
    shown final
  show ?thesis by simp
qed

text \<open>
  C8. Whatever the input and whatever path the call takes, the Thresholds value is at
  the end of detectHeads what it was at the start, field by field.
\<close>

theorem detectHeads_keeps_thresholds:
  "fst (snd (detectHeads E jpegData vertices thresholds w0)) = thresholds
   \<and> confidenceThreshold (fst (snd (detectHeads E jpegData vertices thresholds w0)))
       = confidenceThreshold thresholds
   \<and> scoreThreshold (fst (snd (detectHeads E jpegData vertices thresholds w0)))
       = scoreThreshold thresholds
   \<and> nmsThreshold (fst (snd (detectHeads E jpegData vertices thresholds w0)))
       = nmsThreshold thresholds"
proof -
  have "fst (snd (detectHeads E jpegData vertices thresholds w0)) = thresholds"
    by (simp add: detectHeads_def Let_def split: prod.splits sum.splits)
  then show ?thesis by simp
qed

text \<open>
  C9. Nothing is filtered against the polygon: when the image decodes, the crop
  succeeds and the detector returns its boxes (fewer than \<open>2\<^sup>3\<^sup>1\<close>), the result is
  the list of the translated boxes, one for each box and in the same order, whatever
  the vertices are. The two lists have the same length.
\<close>

theorem detectHeads_no_polygon_filter:
  assumes dec: "imdecode (decode E) jpegData w0 = (Inr img, w1)"
    and ne: "\<not> Mat_empty img"
    and roi: "Mat_roi img (getTgtRect vertices (cols img) (rows img)) = Inr view"
    and cl: "Mat_clone view w1 = (src, w2)"
    and run: "runInference E src
        (w2\<lparr>inf' := setThresholds E (confidenceThreshold thresholds)
           (scoreThreshold thresholds) (nmsThreshold thresholds) (inf' w2)\<rparr>) = (Inr outp, w4)"
    and small: "length outp < 2 ^ 31"
  shows "\<exists>results. fst (detectHeads E jpegData vertices thresholds w0) = Inr results
    \<and> results = map (\<lambda>d.
          \<lparr>Rect.x = cv_Rect.x (box d) + cv_Rect.x (getTgtRect vertices (cols img) (rows img)),
           y = cv_Rect.y (box d) + cv_Rect.y (getTgtRect vertices (cols img) (rows img)),
           width = cv_Rect.width (box d),
           height = cv_Rect.height (box d),
           confidence = Detection.confidence d\<rparr>) outp
    \<and> length results = length outp"
  by (simp add: detectHeads_success [OF dec ne roi cl run] translate_loop_all [OF small])

theorem detectHeads_no_polygon_filter_witness:
  "fst (detectHeads stub_extern stub_jpeg stub_triangle stub_thresholds stub_world)
     = Inr [\<lparr>Rect.x = 4, y = 3, width = 1, height = 1, confidence = 0.9\<rparr>,
            \<lparr>Rect.x = 1, y = 1, width = 2, height = 2, confidence = 0.5\<rparr>]"
  using detectHeads_no_polygon_filter
    [OF stub_dec stub_ne stub_roi stub_cl stub_run stub_small]
  by (simp add: stub_rect) (simp add: stub_output_def)

text \<open>
  C10. For an empty vertex sequence and an image of width \<open>w > 0\<close> and height
  \<open>h > 0\<close>, getTgtRect returns \<open>(w, h, -w, -h)\<close>, with width and height strictly
  negative. detectHeads checks nothing before the crop: the rectangle reaches OpenCV's
  range assertion, which is what ends the call.
\<close>

theorem getTgtRect_empty_vertices:
  assumes dec: "imdecode (decode E) jpegData w0 = (Inr img, w1)"
    and w: "0 <s cols img" and h: "0 <s rows img"
  shows "getTgtRect [] (cols img) (rows img) =
      \<lparr>cv_Rect.x = cols img, y = rows img, width = - cols img, height = - rows img\<rparr>
    \<and> sint (cv_Rect.width (getTgtRect [] (cols img) (rows img))) = - sint (cols img)
    \<and> sint (cv_Rect.height (getTgtRect [] (cols img) (rows img))) = - sint (rows img)
    \<and> sint (cv_Rect.width (getTgtRect [] (cols img) (rows img))) < 0
    \<and> sint (cv_Rect.height (getTgtRect [] (cols img) (rows img))) < 0
    \<and> Mat_roi img (getTgtRect [] (cols img) (rows img)) = Inl cv_Exception
    \<and> fst (detectHeads E jpegData [] thresholds w0) = Inl cv_Exception"
proof -
  from w h have pos: "0 < sint (cols img)" "0 < sint (rows img)"
    by (simp_all add: word_sless_alt)
  then have nz: "cols img \<noteq> 0" "rows img \<noteq> 0" by auto
  have "buffer img \<noteq> None"
    using dec nz by (auto simp: imdecode_def Mat_none_def split: option.splits sum.splits)
  with nz have ne: "\<not> Mat_empty img" by (simp add: Mat_empty_def)
  have crop: "Mat_roi img (getTgtRect [] (cols img) (rows img)) = Inl cv_Exception"
    by (rule Mat_roi_degenerate [OF nz(1)])
  have "fst (detectHeads E jpegData [] thresholds w0) = Inl cv_Exception"
    using ne by (simp add: detectHeads_def dec crop)
  with crop pos show ?thesis
    by (simp add: getTgtRect_Nil sint_neg_pos)
qed

theorem getTgtRect_empty_vertices_witness:
  "getTgtRect [] 8 6 = \<lparr>cv_Rect.x = 8, y = 6, width = - 8, height = - 6\<rparr>
   \<and> sint (cv_Rect.width (getTgtRect [] 8 6)) = - 8
   \<and> sint (cv_Rect.height (getTgtRect [] 8 6)) = - 6
   \<and> Mat_roi \<lparr>buffer = Some 0, origin = (0, 0), rows = 6, cols = 8\<rparr> (getTgtRect [] 8 6)
       = Inl cv_Exception
   \<and> fst (detectHeads stub_extern stub_jpeg [] stub_thresholds stub_world) = Inl cv_Exception"
proof -
  have w: "0 <s cols \<lparr>buffer = Some 0, origin = (0, 0), rows = 6, cols = 8\<rparr>"
    and h: "0 <s rows \<lparr>buffer = Some 0, origin = (0, 0), rows = 6, cols = 8\<rparr>"
    by (simp_all add: word_sless_alt)
  from getTgtRect_empty_vertices [OF stub_dec w h, of stub_thresholds]
  show ?thesis by (simp add: getTgtRect_Nil)
qed

end
